theory Spec2Isabelle
  imports Main
begin

section \<open>JavaScript values\<close>

text \<open>
  The server (\<^verbatim>\<open>server.js\<close>) handles values that come out of \<^verbatim>\<open>JSON.parse\<close>: the body of a
  form submission, the service account's key file, the payloads of the token endpoint and
  of the Sheets API. They are dynamically typed, and the code tests them with \<^verbatim>\<open>!x\<close>,
  \<^verbatim>\<open>x || ''\<close>, \<^verbatim>\<open>now + x\<close> and \<^verbatim>\<open>`Bearer ${x}`\<close>, so the model keeps them as a datatype and
  writes the language's conversions out.

  Numbers are exact integers plus \<^verbatim>\<open>NaN\<close>: that covers \<^verbatim>\<open>Math.floor(Date.now() / 1000)\<close>
  and lifetimes in whole seconds. Fractions, infinities and the rounding of IEEE doubles are
  outside the model. Strings are byte strings (UTF-8). An object is the list of its own
  properties, each key once, as \<^verbatim>\<open>JSON.parse\<close> builds it.
\<close>

datatype number = Fin int | NaN

datatype jsvalue =
    JUndefined
  | JNull
  | JBool bool
  | JNum number
  | JStr string
  | JArr "jsvalue list"
  | JObj "(string \<times> jsvalue) list"

text \<open>\<^verbatim>\<open>ToBoolean\<close>: what \<^verbatim>\<open>!x\<close>, \<^verbatim>\<open>x || y\<close> and \<^verbatim>\<open>x && y\<close> test.\<close>

fun truthy :: "jsvalue \<Rightarrow> bool" where
  "truthy JUndefined = False"
| "truthy JNull = False"
| "truthy (JBool b) = b"
| "truthy (JNum (Fin n)) = (n \<noteq> 0)"
| "truthy (JNum NaN) = False"
| "truthy (JStr s) = (s \<noteq> [])"
| "truthy (JArr xs) = True"
| "truthy (JObj kvs) = True"

text \<open>\<^verbatim>\<open>a || b\<close>.\<close>

definition js_or :: "jsvalue \<Rightarrow> jsvalue \<Rightarrow> jsvalue" where
  "js_or a b = (if truthy a then a else b)"

text \<open>
  Reading a property, \<^verbatim>\<open>data.key\<close> or \<^verbatim>\<open>const { key } = data\<close>: a \<^verbatim>\<open>TypeError\<close> (\<open>None\<close>)
  on \<^verbatim>\<open>null\<close> and \<^verbatim>\<open>undefined\<close>, the own property of an object, and \<^verbatim>\<open>undefined\<close> where there
  is none. The keys the server reads (\<^verbatim>\<open>name\<close>, \<^verbatim>\<open>surname\<close>, \<^verbatim>\<open>birthdate\<close>, \<^verbatim>\<open>whatsapp\<close>,
  \<^verbatim>\<open>email\<close>, \<^verbatim>\<open>access_token\<close>, \<^verbatim>\<open>expires_in\<close>) are on no prototype of a parsed JSON value, so
  inherited properties do not come into it.
\<close>

fun js_get :: "jsvalue \<Rightarrow> string \<Rightarrow> jsvalue option" where
  "js_get JUndefined k = None"
| "js_get JNull k = None"
| "js_get (JObj kvs) k = Some (case map_of kvs k of Some v \<Rightarrow> v | None \<Rightarrow> JUndefined)"
| "js_get v k = Some JUndefined"

fun join_comma :: "string list \<Rightarrow> string" where
  "join_comma [] = []"
| "join_comma [x] = x"
| "join_comma (x # y # ys) = x @ '','' @ join_comma (y # ys)"

text \<open>
  \<^verbatim>\<open>ToString\<close>, as a template literal and string concatenation apply it; the first argument
  prints a number. An array prints its elements joined by commas, \<^verbatim>\<open>null\<close> and
  \<^verbatim>\<open>undefined\<close> as the empty string. A parsed object inherits \<^verbatim>\<open>toString\<close> and prints as
  \<^verbatim>\<open>[object Object]\<close>, unless it has an own property \<^verbatim>\<open>toString\<close>: that one is data, not
  callable, it shadows the inherited method, \<^verbatim>\<open>valueOf\<close> (own or inherited) yields no
  primitive either, and the conversion throws a \<^verbatim>\<open>TypeError\<close> (\<open>None\<close>).
\<close>

fun to_string :: "(int \<Rightarrow> string) \<Rightarrow> jsvalue \<Rightarrow> string option" where
  "to_string ns JUndefined = Some ''undefined''"
| "to_string ns JNull = Some ''null''"
| "to_string ns (JBool b) = Some (if b then ''true'' else ''false'')"
| "to_string ns (JNum (Fin n)) = Some (ns n)"
| "to_string ns (JNum NaN) = Some ''NaN''"
| "to_string ns (JStr s) = Some s"
| "to_string ns (JObj kvs) =
     (if ''toString'' \<in> set (map fst kvs) then None else Some ''[object Object]'')"
| "to_string ns (JArr xs) =
     map_option join_comma
       (those (map (\<lambda>x. case x of JUndefined \<Rightarrow> Some [] | JNull \<Rightarrow> Some []
                             | _ \<Rightarrow> to_string ns x) xs))"

text \<open>\<^verbatim>\<open>ToPrimitive\<close>: arrays and objects become their string, or throw.\<close>

fun to_primitive :: "(int \<Rightarrow> string) \<Rightarrow> jsvalue \<Rightarrow> jsvalue option" where
  "to_primitive ns (JArr xs) = map_option JStr (to_string ns (JArr xs))"
| "to_primitive ns (JObj kvs) = map_option JStr (to_string ns (JObj kvs))"
| "to_primitive ns v = Some v"

text \<open>\<^verbatim>\<open>ToNumber\<close> of a primitive; the first argument reads a number from a string.\<close>

fun prim_to_number :: "(string \<Rightarrow> number) \<Rightarrow> jsvalue \<Rightarrow> number" where
  "prim_to_number sn JUndefined = NaN"
| "prim_to_number sn JNull = Fin 0"
| "prim_to_number sn (JBool b) = Fin (if b then 1 else 0)"
| "prim_to_number sn (JNum n) = n"
| "prim_to_number sn (JStr s) = sn s"
| "prim_to_number sn v = NaN"

fun num_add :: "number \<Rightarrow> number \<Rightarrow> number" where
  "num_add (Fin a) (Fin b) = Fin (a + b)"
| "num_add a b = NaN"

fun num_sub :: "number \<Rightarrow> number \<Rightarrow> number" where
  "num_sub (Fin a) (Fin b) = Fin (a - b)"
| "num_sub a b = NaN"

fun num_gt :: "number \<Rightarrow> number \<Rightarrow> bool" where
  "num_gt (Fin a) (Fin b) = (a > b)"
| "num_gt a b = False"

fun is_string :: "jsvalue \<Rightarrow> bool" where
  "is_string (JStr s) = True"
| "is_string v = False"

section \<open>The runtime\<close>

text \<open>
  The functions of the language and of Node.js that the server calls and that are no code
  of the repository are parameters of the model: \<^verbatim>\<open>JSON.parse\<close> (\<open>None\<close> when it throws),
  \<^verbatim>\<open>JSON.stringify\<close>, the printing and reading of numbers, the RSA-SHA256 signature of
  \<^verbatim>\<open>crypto.createSign\<close> in base64url (\<open>None\<close> when the key is refused),
  \<^verbatim>\<open>encodeURIComponent\<close>, \<^verbatim>\<open>path.join\<close>, \<^verbatim>\<open>path.extname\<close>, \<^verbatim>\<open>toLowerCase\<close>, the decoding of
  a chunk of the request body to a string, and \<^verbatim>\<open>url.parse\<close>.

  \<^verbatim>\<open>url.parse(req.url, true)\<close> throws on some request targets (\<open>None\<close>); where it returns,
  the \<^verbatim>\<open>pathname\<close> of its result is a string or \<^verbatim>\<open>null\<close> (\<open>None\<close>).
\<close>

record parsed_url =
  pathname :: "string option"

record runtime =
  JSON_parse :: "string \<Rightarrow> jsvalue option"
  JSON_stringify :: "jsvalue \<Rightarrow> string"
  number_to_string :: "int \<Rightarrow> string"
  string_to_number :: "string \<Rightarrow> number"
  rsa_sha256_sign :: "jsvalue \<Rightarrow> string \<Rightarrow> string option"
  encodeURIComponent :: "string \<Rightarrow> string"
  path_join :: "string \<Rightarrow> string \<Rightarrow> string"
  path_extname :: "string \<Rightarrow> string"
  toLowerCase :: "string \<Rightarrow> string"
  chunk_toString :: "string \<Rightarrow> string"
  url_parse :: "string \<Rightarrow> parsed_url option"

text \<open>
  \<^verbatim>\<open>a + b\<close>: both operands go through \<^verbatim>\<open>ToPrimitive\<close> (which may throw); if either is then a
  string the result is the concatenation, otherwise the sum of the numbers.
\<close>

definition js_add :: "runtime \<Rightarrow> jsvalue \<Rightarrow> jsvalue \<Rightarrow> jsvalue option" where
  "js_add rt a b =
     (case to_primitive (number_to_string rt) a of
        None \<Rightarrow> None
      | Some pa \<Rightarrow>
          (case to_primitive (number_to_string rt) b of
             None \<Rightarrow> None
           | Some pb \<Rightarrow>
               if is_string pa \<or> is_string pb then
                 (case to_string (number_to_string rt) pa of
                    None \<Rightarrow> None
                  | Some x \<Rightarrow>
                      (case to_string (number_to_string rt) pb of
                         None \<Rightarrow> None
                       | Some y \<Rightarrow> Some (JStr (x @ y))))
               else Some (JNum (num_add (prim_to_number (string_to_number rt) pa)
                                        (prim_to_number (string_to_number rt) pb)))))"

text \<open>\<^verbatim>\<open>a - b\<close>: always a number, after \<^verbatim>\<open>ToPrimitive\<close> and \<^verbatim>\<open>ToNumber\<close>.\<close>

definition js_sub :: "runtime \<Rightarrow> jsvalue \<Rightarrow> jsvalue \<Rightarrow> number option" where
  "js_sub rt a b =
     (case to_primitive (number_to_string rt) a of
        None \<Rightarrow> None
      | Some pa \<Rightarrow>
          (case to_primitive (number_to_string rt) b of
             None \<Rightarrow> None
           | Some pb \<Rightarrow> Some (num_sub (prim_to_number (string_to_number rt) pa)
                                       (prim_to_number (string_to_number rt) pb))))"

section \<open>base64url\<close>

text \<open>
  \<^verbatim>\<open>base64url(input)\<close> is \<^verbatim>\<open>Buffer.from(input).toString('base64url')\<close>: three bytes give four
  characters of the URL-safe alphabet, and the last group of one or two bytes gives two or
  three characters, without padding.
\<close>

definition b64_alphabet :: string where
  "b64_alphabet = ''ABCDEFGHIJKLMNOPQRSTUVWXYZabcdefghijklmnopqrstuvwxyz0123456789-_''"

definition sextet :: "nat \<Rightarrow> char" where
  "sextet n = b64_alphabet ! n"

fun encode_bytes :: "nat list \<Rightarrow> string" where
  "encode_bytes (a # b # c # rest) =
     [sextet (a div 4), sextet ((a mod 4) * 16 + b div 16),
      sextet ((b mod 16) * 4 + c div 64), sextet (c mod 64)] @ encode_bytes rest"
| "encode_bytes [a, b] =
     [sextet (a div 4), sextet ((a mod 4) * 16 + b div 16), sextet ((b mod 16) * 4)]"
| "encode_bytes [a] = [sextet (a div 4), sextet ((a mod 4) * 16)]"
| "encode_bytes [] = []"

definition base64url :: "string \<Rightarrow> string" where
  "base64url input = encode_bytes (map of_char input)"

section \<open>Configuration, the world and the process state\<close>

text \<open>
  The constants read at start-up: the two fields of the service account's key file (parsed
  JSON, so any value), the spreadsheet, the range and \<^verbatim>\<open>__dirname\<close>.
\<close>

record config =
  client_email :: jsvalue
  private_key :: jsvalue
  SHEET_ID :: string
  RANGE :: string
  dirname :: string

text \<open>An outbound \<^verbatim>\<open>fetch\<close>: the URL and the options the code passes.\<close>

datatype fetch_body = FormParams "(string \<times> string) list" | TextBody string

record fetch_request =
  fetch_url :: string
  fetch_method :: string
  fetch_headers :: "(string \<times> string) list"
  fetch_payload :: fetch_body

text \<open>
  What \<^verbatim>\<open>fetch\<close> resolves to: the status and what \<^verbatim>\<open>response.json()\<close> gives (\<open>None\<close> when the
  body is no JSON). \<^verbatim>\<open>response.ok\<close> is true for the statuses 200 to 299.
\<close>

record fetch_response =
  fetch_status :: nat
  json :: "jsvalue option"

definition ok :: "fetch_response \<Rightarrow> bool" where
  "ok response = (200 \<le> fetch_status response \<and> fetch_status response \<le> 299)"

text \<open>
  The world as one request of the server meets it: the clock (\<^verbatim>\<open>Date.now()\<close> in
  milliseconds, and \<^verbatim>\<open>new Date().toISOString()\<close>), the network (\<open>None\<close> when \<^verbatim>\<open>fetch\<close>
  rejects) and the file system at the first read and at the fallback read (\<open>None\<close> when
  \<^verbatim>\<open>fs.readFile\<close> reports an error).
\<close>

record world =
  Date_now :: int
  toISOString :: string
  fetch :: "fetch_request \<Rightarrow> fetch_response option"
  readFile :: "string \<Rightarrow> string option"
  readFile_fallback :: "string \<Rightarrow> string option"

text \<open>The two module-level variables of the token cache, and their initial values.\<close>

record token_cache =
  cachedToken :: jsvalue
  tokenExpiry :: jsvalue

definition initial_cache :: token_cache where
  "initial_cache = \<lparr>cachedToken = JNull, tokenExpiry = JNum (Fin 0)\<rparr>"

text \<open>
  What a request does besides answering: the calls of \<^verbatim>\<open>appendToSheet\<close> with the row they
  are given, and the outbound \<^verbatim>\<open>fetch\<close> calls, in order.
\<close>

datatype event = AppendToSheet "jsvalue list" | Fetch fetch_request

datatype error =
    TypeError
  | SignError
  | FetchRejected
  | JsonRejected
  | TokenRequestFailed jsvalue
  | SheetsAppendFailed jsvalue

section \<open>getAccessToken\<close>

definition token_url :: string where
  "token_url = ''https://oauth2.googleapis.com/token''"

definition jwt_header :: jsvalue where
  "jwt_header = JObj [(''alg'', JStr ''RS256''), (''typ'', JStr ''JWT'')]"

definition jwt_payload :: "config \<Rightarrow> int \<Rightarrow> jsvalue" where
  "jwt_payload cfg now =
     JObj [(''iss'', client_email cfg),
           (''scope'', JStr ''https://www.googleapis.com/auth/spreadsheets''),
           (''aud'', JStr ''https://oauth2.googleapis.com/token''),
           (''exp'', JNum (Fin (now + 3600))),
           (''iat'', JNum (Fin now))]"

definition unsigned_token :: "runtime \<Rightarrow> config \<Rightarrow> int \<Rightarrow> string" where
  "unsigned_token rt cfg now =
     base64url (JSON_stringify rt jwt_header) @ ''.'' @
     base64url (JSON_stringify rt (jwt_payload cfg now))"

definition token_request :: "string \<Rightarrow> fetch_request" where
  "token_request signedJwt =
     \<lparr>fetch_url = token_url,
      fetch_method = ''POST'',
      fetch_headers = [(''Content-Type'', ''application/x-www-form-urlencoded'')],
      fetch_payload = FormParams
        [(''grant_type'', ''urn:ietf:params:oauth:grant-type:jwt-bearer''),
         (''assertion'', signedJwt)]\<rparr>"

text \<open>
  The test \<^verbatim>\<open>cachedToken && tokenExpiry - 5 > now\<close>; the subtraction is evaluated only when
  the token is truthy. \<open>None\<close> when the subtraction throws.
\<close>

definition cache_valid :: "runtime \<Rightarrow> token_cache \<Rightarrow> int \<Rightarrow> bool option" where
  "cache_valid rt s now =
     (if truthy (cachedToken s) then
        (case js_sub rt (tokenExpiry s) (JNum (Fin 5)) of
           None \<Rightarrow> None
         | Some d \<Rightarrow> Some (num_gt d (Fin now)))
      else Some False)"

text \<open>
  The part of \<^verbatim>\<open>getAccessToken\<close> after the cache test: build and sign the assertion, post it,
  read the answer, and on a success store the token, then the expiry. The result is what
  the call returns or throws, the cache afterwards, and the calls to \<^verbatim>\<open>fetch\<close>.
\<close>

definition exchange ::
  "runtime \<Rightarrow> config \<Rightarrow> world \<Rightarrow> token_cache \<Rightarrow> int \<Rightarrow>
     (error + jsvalue) \<times> token_cache \<times> event list" where
  "exchange rt cfg w s now =
     (let unsignedToken = unsigned_token rt cfg now in
      case rsa_sha256_sign rt (private_key cfg) unsignedToken of
        None \<Rightarrow> (Inl SignError, s, [])
      | Some signature \<Rightarrow>
          (let signedJwt = unsignedToken @ ''.'' @ signature;
               request = token_request signedJwt in
           case fetch w request of
             None \<Rightarrow> (Inl FetchRejected, s, [Fetch request])
           | Some response \<Rightarrow>
               (case json response of
                  None \<Rightarrow> (Inl JsonRejected, s, [Fetch request])
                | Some data \<Rightarrow>
                    if \<not> ok response then (Inl (TokenRequestFailed data), s, [Fetch request])
                    else
                      (case js_get data ''access_token'' of
                         None \<Rightarrow> (Inl TypeError, s, [Fetch request])
                       | Some access_token \<Rightarrow>
                           (let s1 = s\<lparr>cachedToken := access_token\<rparr> in
                            case js_get data ''expires_in'' of
                              None \<Rightarrow> (Inl TypeError, s1, [Fetch request])
                            | Some expires_in \<Rightarrow>
                                (case js_add rt (JNum (Fin now)) expires_in of
                                   None \<Rightarrow> (Inl TypeError, s1, [Fetch request])
                                 | Some expiry \<Rightarrow>
                                     (Inr access_token, s1\<lparr>tokenExpiry := expiry\<rparr>,
                                      [Fetch request])))))))"

definition getAccessToken ::
  "runtime \<Rightarrow> config \<Rightarrow> world \<Rightarrow> token_cache \<Rightarrow>
     (error + jsvalue) \<times> token_cache \<times> event list" where
  "getAccessToken rt cfg w s =
     (let now = Date_now w div 1000 in
      case cache_valid rt s now of
        None \<Rightarrow> (Inl TypeError, s, [])
      | Some True \<Rightarrow> (Inr (cachedToken s), s, [])
      | Some False \<Rightarrow> exchange rt cfg w s now)"

section \<open>appendToSheet\<close>

definition sheets_url :: "runtime \<Rightarrow> config \<Rightarrow> string" where
  "sheets_url rt cfg =
     ''https://sheets.googleapis.com/v4/spreadsheets/'' @ SHEET_ID cfg @ ''/values/'' @
     encodeURIComponent rt (RANGE cfg) @ '':append?valueInputOption=RAW''"

definition append_request :: "runtime \<Rightarrow> config \<Rightarrow> string \<Rightarrow> jsvalue list \<Rightarrow> fetch_request" where
  "append_request rt cfg bearer values =
     \<lparr>fetch_url = sheets_url rt cfg,
      fetch_method = ''POST'',
      fetch_headers = [(''Authorization'', ''Bearer '' @ bearer),
                       (''Content-Type'', ''application/json'')],
      fetch_payload = TextBody (JSON_stringify rt (JObj [(''values'', JArr [JArr values])]))\<rparr>"

definition appendToSheet ::
  "runtime \<Rightarrow> config \<Rightarrow> world \<Rightarrow> token_cache \<Rightarrow> jsvalue list \<Rightarrow>
     (error + jsvalue) \<times> token_cache \<times> event list" where
  "appendToSheet rt cfg w s values =
     (case getAccessToken rt cfg w s of
        (Inl e, s', evs) \<Rightarrow> (Inl e, s', AppendToSheet values # evs)
      | (Inr token, s', evs) \<Rightarrow>
          (case to_string (number_to_string rt) token of
             None \<Rightarrow> (Inl TypeError, s', AppendToSheet values # evs)
           | Some bearer \<Rightarrow>
               (let request = append_request rt cfg bearer values in
                case fetch w request of
                  None \<Rightarrow> (Inl FetchRejected, s', AppendToSheet values # evs @ [Fetch request])
                | Some response \<Rightarrow>
                    (case json response of
                       None \<Rightarrow>
                         (Inl JsonRejected, s', AppendToSheet values # evs @ [Fetch request])
                     | Some data \<Rightarrow>
                         if \<not> ok response then
                           (Inl (SheetsAppendFailed data), s',
                            AppendToSheet values # evs @ [Fetch request])
                         else (Inr data, s', AppendToSheet values # evs @ [Fetch request])))))"

section \<open>The response\<close>

text \<open>
  The \<^verbatim>\<open>res\<close> object: \<^verbatim>\<open>setHeader\<close> stores a header, \<^verbatim>\<open>writeHead\<close> sets the status and adds its
  headers to the stored ones (replacing one of the same name), \<^verbatim>\<open>end\<close> writes the body.
\<close>

record response =
  statusCode :: nat
  headers :: "(string \<times> string) list"
  body :: string

definition new_response :: response where
  "new_response = \<lparr>statusCode = 200, headers = [], body = []\<rparr>"

definition put_header :: "string \<Rightarrow> string \<Rightarrow> (string \<times> string) list \<Rightarrow> (string \<times> string) list" where
  "put_header k v hs = filter (\<lambda>h. fst h \<noteq> k) hs @ [(k, v)]"

definition setHeader :: "string \<Rightarrow> string \<Rightarrow> response \<Rightarrow> response" where
  "setHeader k v res = res\<lparr>headers := put_header k v (headers res)\<rparr>"

definition writeHead :: "nat \<Rightarrow> (string \<times> string) list \<Rightarrow> response \<Rightarrow> response" where
  "writeHead code hs res =
     res\<lparr>statusCode := code, headers := fold (\<lambda>h. put_header (fst h) (snd h)) hs (headers res)\<rparr>"

definition res_end :: "string \<Rightarrow> response \<Rightarrow> response" where
  "res_end content res = res\<lparr>body := content\<rparr>"

section \<open>serveStaticFile\<close>

definition mimeTypes :: "(string \<times> string) list" where
  "mimeTypes =
     [(''.html'', ''text/html''),
      (''.css'', ''text/css''),
      (''.js'', ''application/javascript''),
      (''.png'', ''image/png''),
      (''.jpg'', ''image/jpeg''),
      (''.jpeg'', ''image/jpeg''),
      (''.svg'', ''image/svg+xml'')]"

text \<open>
  When the fallback read fails too, \<^verbatim>\<open>indexContent\<close> is \<^verbatim>\<open>undefined\<close> and \<^verbatim>\<open>res.end\<close> writes no
  body.
\<close>

definition serveStaticFile :: "runtime \<Rightarrow> config \<Rightarrow> world \<Rightarrow> string \<Rightarrow> response \<Rightarrow> response" where
  "serveStaticFile rt cfg w filePath res =
     (case readFile w filePath of
        None \<Rightarrow>
          (let indexPath = path_join rt (dirname cfg) ''index.html'' in
           case readFile_fallback w indexPath of
             None \<Rightarrow> res_end [] (writeHead 200 [(''Content-Type'', ''text/html'')] res)
           | Some indexContent \<Rightarrow>
               res_end indexContent (writeHead 200 [(''Content-Type'', ''text/html'')] res))
      | Some content \<Rightarrow>
          (let ext = toLowerCase rt (path_extname rt filePath);
               contentType = (case map_of mimeTypes ext of
                                Some t \<Rightarrow> t
                              | None \<Rightarrow> ''application/octet-stream'') in
           res_end content (writeHead 200 [(''Content-Type'', contentType)] res)))"

section \<open>The request handler\<close>

text \<open>
  The handler is modelled one request at a time: it takes the token cache as the request
  finds it and returns the answer, the cache it leaves and the calls it made. The
  interleaving of requests that are in flight together, and what the server writes to the
  console, are outside the model.
\<close>

text \<open>
  A request as the handler reads it: \<^verbatim>\<open>req.method\<close>, \<^verbatim>\<open>req.url\<close>, and the chunks of the body
  that the \<^verbatim>\<open>data\<close> events deliver (\<^verbatim>\<open>body += chunk\<close> turns each into a string on its own).
\<close>

record request =
  req_method :: string
  req_url :: string
  chunks :: "string list"

definition msg_required :: string where
  "msg_required =
     ''Nome, sobrenome e email s'' @ [CHR 0xC3, CHR 0xA3] @ ''o obrigat'' @
     [CHR 0xC3, CHR 0xB3] @ ''rios.''"

definition msg_failure :: string where
  "msg_failure =
     ''Erro ao processar a solicita'' @ [CHR 0xC3, CHR 0xA7, CHR 0xC3, CHR 0xA3] @ ''o.''"

definition msg_success :: string where
  "msg_success = ''Dados enviados com sucesso!''"

definition json_response :: "runtime \<Rightarrow> nat \<Rightarrow> string \<Rightarrow> string \<Rightarrow> response \<Rightarrow> response" where
  "json_response rt code key msg res =
     res_end (JSON_stringify rt (JObj [(key, JStr msg)]))
       (writeHead code [(''Content-Type'', ''application/json'')] res)"

text \<open>
  The listener of the \<^verbatim>\<open>end\<close> event of a \<^verbatim>\<open>POST /submit\<close>: everything inside its \<^verbatim>\<open>try\<close>, with
  the \<^verbatim>\<open>catch\<close> as the 500 branches.
\<close>

definition on_end ::
  "runtime \<Rightarrow> config \<Rightarrow> world \<Rightarrow> token_cache \<Rightarrow> string \<Rightarrow> response \<Rightarrow>
     response \<times> token_cache \<times> event list" where
  "on_end rt cfg w s text res =
     (case JSON_parse rt text of
        None \<Rightarrow> (json_response rt 500 ''error'' msg_failure res, s, [])
      | Some data \<Rightarrow>
          (case (js_get data ''name'', js_get data ''surname'', js_get data ''birthdate'',
                 js_get data ''whatsapp'', js_get data ''email'') of
             (Some name, Some surname, Some birthdate, Some whatsapp, Some email) \<Rightarrow>
               if \<not> truthy name \<or> \<not> truthy surname \<or> \<not> truthy email then
                 (json_response rt 400 ''error'' msg_required res, s, [])
               else
                 (let timestamp = toISOString w;
                      row = [JStr timestamp, name, surname, js_or birthdate (JStr []),
                             js_or whatsapp (JStr []), email] in
                  case appendToSheet rt cfg w s row of
                    (Inl e, s', evs) \<Rightarrow> (json_response rt 500 ''error'' msg_failure res, s', evs)
                  | (Inr result, s', evs) \<Rightarrow>
                      (json_response rt 200 ''message'' msg_success res, s', evs))
           | _ \<Rightarrow> (json_response rt 500 ''error'' msg_failure res, s, [])))"

definition cors :: "response \<Rightarrow> response" where
  "cors res =
     setHeader ''Access-Control-Allow-Headers'' ''Content-Type''
       (setHeader ''Access-Control-Allow-Methods'' ''GET, POST, OPTIONS''
          (setHeader ''Access-Control-Allow-Origin'' ''*'' res))"

text \<open>
  The callback of \<^verbatim>\<open>http.createServer\<close>. Its first statement, \<^verbatim>\<open>url.parse(req.url, true)\<close>,
  stands before the cross-origin headers and the \<^verbatim>\<open>OPTIONS\<close> test and inside no \<^verbatim>\<open>try\<close>; and
  on the static branch \<^verbatim>\<open>path.join(__dirname, parsedUrl.pathname)\<close> throws on a \<^verbatim>\<open>null\<close>
  pathname. Where either throws, nothing has been written and the request gets no response:
  the answer is \<open>None\<close>.
\<close>

definition handler ::
  "runtime \<Rightarrow> config \<Rightarrow> world \<Rightarrow> token_cache \<Rightarrow> request \<Rightarrow>
     response option \<times> token_cache \<times> event list" where
  "handler rt cfg w s req =
     (case url_parse rt (req_url req) of
        None \<Rightarrow> (None, s, [])
      | Some parsedUrl \<Rightarrow>
          (let res = cors new_response in
           if req_method req = ''OPTIONS'' then (Some (res_end [] (writeHead 204 [] res)), s, [])
           else if req_method req = ''POST'' \<and> pathname parsedUrl = Some ''/submit'' then
             (case on_end rt cfg w s (concat (map (chunk_toString rt) (chunks req))) res of
                (answer, s', evs) \<Rightarrow> (Some answer, s', evs))
           else
             (case pathname parsedUrl of
                None \<Rightarrow> (None, s, [])
              | Some p \<Rightarrow>
                  (let filePath =
                         (if p = ''/'' \<or> p = [] then path_join rt (dirname cfg) ''index.html''
                          else path_join rt (dirname cfg) p) in
                   (Some (serveStaticFile rt cfg w filePath res), s, [])))))"

section \<open>Counting token exchanges\<close>

text \<open>The number of calls to the token endpoint among the calls a request made.\<close>

definition token_exchanges :: "event list \<Rightarrow> nat" where
  "token_exchanges evs =
     length (filter (\<lambda>e. case e of Fetch q \<Rightarrow> fetch_url q = token_url
                              | AppendToSheet row \<Rightarrow> False) evs)"

section \<open>A sample deployment\<close>

text \<open>
  Concrete values on which the theorems below are exercised: a runtime whose JSON functions
  know the texts and values of the examples (no example prints or reads a number, so those
  two functions are constant), a service account, a site of two files, and worlds in which
  the token endpoint and the Sheets API answer in different ways.
\<close>

definition header_text :: string where
  \<open>header_text = ''{"alg":"RS256","typ":"JWT"}''\<close>

definition payload_text :: string where
  \<open>payload_text = ''{"iss":"leads@example.iam.gserviceaccount.com","scope":"https://www.googleapis.com/auth/spreadsheets","aud":"https://oauth2.googleapis.com/token","exp":1700003600,"iat":1700000000}''\<close>

definition sample_assertion :: string where
  "sample_assertion =
     ''eyJhbGciOiJSUzI1NiIsInR5cCI6IkpXVCJ9'' @ ''.'' @
     ''eyJpc3MiOiJsZWFkc0BleGFtcGxlLmlhbS5nc2VydmljZWFjY291bnQuY29tIiwic2NvcGUiOiJodHRwczovL3d3dy5nb29nbGVhcGlzLmNvbS9hdXRoL3NwcmVhZHNoZWV0cyIsImF1ZCI6Imh0dHBzOi8vb2F1dGgyLmdvb2dsZWFwaXMuY29tL3Rva2VuIiwiZXhwIjoxNzAwMDAzNjAwLCJpYXQiOjE3MDAwMDAwMDB9''
     @ ''.'' @ ''c2ln''"

definition ana_text :: string where
  \<open>ana_text = ''{"name":"Ana","surname":"Silva","email":"a@x.com"}''\<close>

definition ana :: jsvalue where
  "ana = JObj [(''name'', JStr ''Ana''), (''surname'', JStr ''Silva''),
               (''email'', JStr ''a@x.com'')]"

definition nameless_text :: string where
  \<open>nameless_text = ''{"surname":"Silva","email":"a@x.com"}''\<close>

definition nameless :: jsvalue where
  "nameless = JObj [(''surname'', JStr ''Silva''), (''email'', JStr ''a@x.com'')]"

definition sample_config :: config where
  "sample_config =
     \<lparr>client_email = JStr ''leads@example.iam.gserviceaccount.com'',
      private_key = JStr ''PEM'',
      SHEET_ID = ''sheet-1'',
      RANGE = ''A:F'',
      dirname = ''/srv''\<rparr>"

definition sample_stringify :: "jsvalue \<Rightarrow> string" where
  \<open>sample_stringify v =
     (if v = jwt_header then header_text
      else if v = jwt_payload sample_config 1700000000 then payload_text
      else (case v of
              JObj [(k, JStr m)] \<Rightarrow> ''{"'' @ k @ ''":"'' @ m @ ''"}''
            | _ \<Rightarrow> ''{}''))\<close>

text \<open>
  The paths of origin-form targets, and the one target of the examples that \<^verbatim>\<open>url.parse\<close>
  refuses.
\<close>

definition sample_url_parse :: "string \<Rightarrow> parsed_url option" where
  "sample_url_parse u =
     (if u = ''http://[::1/x'' then None
      else if u = [] then Some \<lparr>pathname = None\<rparr>
      else Some \<lparr>pathname = Some (takeWhile (\<lambda>c. c \<noteq> CHR ''?'') u)\<rparr>)"

definition sample_runtime :: runtime where
  "sample_runtime =
     \<lparr>JSON_parse = (\<lambda>t. if t = ana_text then Some ana
                         else if t = nameless_text then Some nameless
                         else if t = ''null'' then Some JNull
                         else None),
      JSON_stringify = sample_stringify,
      number_to_string = (\<lambda>n. ''0''),
      string_to_number = (\<lambda>t. NaN),
      rsa_sha256_sign = (\<lambda>key t. Some ''c2ln''),
      encodeURIComponent = (\<lambda>t. t),
      path_join = (\<lambda>a b. case b of CHR ''/'' # b' \<Rightarrow> a @ b | _ \<Rightarrow> a @ ''/'' @ b),
      path_extname = (\<lambda>p. if CHR ''.'' \<in> set p
                            then CHR ''.'' # rev (takeWhile (\<lambda>c. c \<noteq> CHR ''.'') (rev p))
                            else []),
      toLowerCase = (\<lambda>t. t),
      chunk_toString = (\<lambda>t. t),
      url_parse = sample_url_parse\<rparr>"

definition site_files :: "string \<Rightarrow> string option" where
  "site_files p = (if p = ''/srv/index.html'' then Some ''<html>main</html>''
                   else if p = ''/srv/style.css'' then Some ''body {}''
                   else None)"

definition token_reply :: fetch_response where
  "token_reply =
     \<lparr>fetch_status = 200,
      json = Some (JObj [(''access_token'', JStr ''ya29.T''),
                         (''expires_in'', JNum (Fin 3599))])\<rparr>"

definition sample_world :: world where
  "sample_world =
     \<lparr>Date_now = 1700000000123,
      toISOString = ''2023-11-14T22:13:20.123Z'',
      fetch = (\<lambda>q. if fetch_url q = token_url then Some token_reply
                     else Some \<lparr>fetch_status = 200, json = Some (JObj [])\<rparr>),
      readFile = site_files,
      readFile_fallback = site_files\<rparr>"

text \<open>One minute later.\<close>

definition later_world :: world where
  "later_world =
     sample_world\<lparr>Date_now := 1700000060000, toISOString := ''2023-11-14T22:14:20.000Z''\<rparr>"

text \<open>The spreadsheet is not shared with the service account: the append is refused.\<close>

definition unshared_world :: world where
  "unshared_world =
     sample_world\<lparr>fetch := (\<lambda>q. if fetch_url q = token_url then Some token_reply
                     else Some \<lparr>fetch_status = 403,
                                 json = Some (JObj [(''error'', JStr ''PERMISSION_DENIED'')])\<rparr>)\<rparr>"

text \<open>The token endpoint refuses the assertion.\<close>

definition denied_world :: world where
  "denied_world =
     sample_world\<lparr>fetch := (\<lambda>q. if fetch_url q = token_url
                     then Some \<lparr>fetch_status = 400,
                                 json = Some (JObj [(''error'', JStr ''invalid_grant'')])\<rparr>
                     else Some \<lparr>fetch_status = 200, json = Some (JObj [])\<rparr>)\<rparr>"

text \<open>
  The token endpoint answers 200 with
  \<^verbatim>\<open>{"access_token":"ya29.T","expires_in":{"toString":0}}\<close>.
\<close>

definition odd_lifetime_world :: world where
  "odd_lifetime_world =
     sample_world\<lparr>fetch := (\<lambda>q. if fetch_url q = token_url
                     then Some \<lparr>fetch_status = 200,
                                 json = Some (JObj [(''access_token'', JStr ''ya29.T''),
                                                    (''expires_in'',
                                                     JObj [(''toString'', JNum (Fin 0))])])\<rparr>
                     else Some \<lparr>fetch_status = 200, json = Some (JObj [])\<rparr>)\<rparr>"

text \<open>No file can be read.\<close>

definition bare_world :: world where
  "bare_world = sample_world\<lparr>readFile := (\<lambda>p. None), readFile_fallback := (\<lambda>p. None)\<rparr>"

definition ana_request :: request where
  "ana_request = \<lparr>req_method = ''POST'', req_url = ''/submit'', chunks = [ana_text]\<rparr>"

definition nameless_request :: request where
  "nameless_request =
     \<lparr>req_method = ''POST'', req_url = ''/submit'', chunks = [nameless_text]\<rparr>"

definition null_request :: request where
  "null_request = \<lparr>req_method = ''POST'', req_url = ''/submit'', chunks = [''null'']\<rparr>"

definition get_submit :: request where
  "get_submit = \<lparr>req_method = ''GET'', req_url = ''/submit'', chunks = []\<rparr>"

definition options_submit :: request where
  "options_submit = \<lparr>req_method = ''OPTIONS'', req_url = ''/submit'', chunks = []\<rparr>"

text \<open>An \<^verbatim>\<open>OPTIONS\<close> request in absolute form whose host is an unclosed IPv6 literal.\<close>

definition options_bad_target :: request where
  "options_bad_target =
     \<lparr>req_method = ''OPTIONS'', req_url = ''http://[::1/x'', chunks = []\<rparr>"

definition warm_cache :: token_cache where
  "warm_cache = \<lparr>cachedToken = JStr ''ya29.T'', tokenExpiry = JNum (Fin 1700003599)\<rparr>"

definition ana_row :: "jsvalue list" where
  "ana_row = [JStr ''2023-11-14T22:13:20.123Z'', JStr ''Ana'', JStr ''Silva'', JStr [], JStr [],
              JStr ''a@x.com'']"

definition cors_list :: "(string \<times> string) list" where
  "cors_list =
     [(''Access-Control-Allow-Origin'', ''*''),
      (''Access-Control-Allow-Methods'', ''GET, POST, OPTIONS''),
      (''Access-Control-Allow-Headers'', ''Content-Type'')]"

section \<open>Basic facts\<close>

lemmas model_defs =
  handler_def on_end_def appendToSheet_def getAccessToken_def exchange_def cache_valid_def
  serveStaticFile_def json_response_def cors_def setHeader_def writeHead_def res_end_def
  put_header_def new_response_def token_request_def append_request_def sheets_url_def
  unsigned_token_def jwt_header_def jwt_payload_def token_url_def js_add_def js_sub_def
  js_or_def ok_def initial_cache_def base64url_def sextet_def b64_alphabet_def
  msg_required_def msg_failure_def msg_success_def mimeTypes_def

lemmas sample_defs =
  sample_runtime_def sample_stringify_def sample_config_def sample_world_def later_world_def
  unshared_world_def denied_world_def odd_lifetime_world_def bare_world_def site_files_def
  token_reply_def ana_request_def nameless_request_def null_request_def get_submit_def
  options_submit_def options_bad_target_def sample_url_parse_def ana_text_def ana_def nameless_text_def nameless_def header_text_def
  payload_text_def sample_assertion_def warm_cache_def ana_row_def cors_list_def

text \<open>The encoder on the header every such assertion starts with.\<close>

lemma base64url_header: "base64url header_text = ''eyJhbGciOiJSUzI1NiIsInR5cCI6IkpXVCJ9''"
  by (simp add: header_text_def base64url_def sextet_def b64_alphabet_def)

lemma sheets_url_not_token_url: "sheets_url rt cfg \<noteq> token_url"
  by (simp add: sheets_url_def token_url_def)

lemma js_sub_numbers: "js_sub rt (JNum a) (JNum b) = Some (num_sub a b)"
  by (simp add: js_sub_def)

lemma js_add_numbers: "js_add rt (JNum a) (JNum b) = Some (JNum (num_add a b))"
  by (simp add: js_add_def)

lemma js_or_defined: "js_or v (JStr []) \<noteq> JUndefined \<and> js_or v (JStr []) \<noteq> JNull"
  by (cases v) (auto simp: js_or_def)

lemma token_exchanges_append [simp]:
  "token_exchanges (xs @ ys) = token_exchanges xs + token_exchanges ys"
  by (simp add: token_exchanges_def)

lemma token_exchanges_simps [simp]:
  "token_exchanges [] = 0"
  "token_exchanges (AppendToSheet row # evs) = token_exchanges evs"
  "token_exchanges (Fetch q # evs) =
     (if fetch_url q = token_url then 1 else 0) + token_exchanges evs"
  by (simp_all add: token_exchanges_def)

lemma token_fetch_counted:
  "Fetch q \<in> set evs \<Longrightarrow> fetch_url q = token_url \<Longrightarrow> 0 < token_exchanges evs"
  by (induction evs) (auto simp: token_exchanges_def split: event.splits)

subsection \<open>The token cache\<close>

lemma cache_valid_Some_True:
  "cache_valid rt s now = Some True \<longleftrightarrow>
     truthy (cachedToken s) \<and>
     (\<exists>d. js_sub rt (tokenExpiry s) (JNum (Fin 5)) = Some d \<and> num_gt d (Fin now))"
  by (auto simp: cache_valid_def split: option.splits)

lemma getAccessToken_hit:
  "cache_valid rt s (Date_now w div 1000) = Some True \<Longrightarrow>
     getAccessToken rt cfg w s = (Inr (cachedToken s), s, [])"
  by (simp add: getAccessToken_def)

lemma getAccessToken_miss:
  "cache_valid rt s (Date_now w div 1000) = Some False \<Longrightarrow>
     getAccessToken rt cfg w s = exchange rt cfg w s (Date_now w div 1000)"
  by (simp add: getAccessToken_def)

lemma exchange_success:
  assumes "rsa_sha256_sign rt (private_key cfg) (unsigned_token rt cfg now) = Some sg"
    and "fetch w (token_request (unsigned_token rt cfg now @ ''.'' @ sg)) = Some resp"
    and "ok resp" and "json resp = Some data"
    and "js_get data ''access_token'' = Some tok"
    and "js_get data ''expires_in'' = Some lifetime"
    and "js_add rt (JNum (Fin now)) lifetime = Some expiry"
  shows "exchange rt cfg w s now =
           (Inr tok, \<lparr>cachedToken = tok, tokenExpiry = expiry\<rparr>,
            [Fetch (token_request (unsigned_token rt cfg now @ ''.'' @ sg))])"
  using assms by (simp add: exchange_def Let_def)

lemma getAccessToken_failed_exchange:
  assumes "getAccessToken rt cfg w s = (r, s', evs)" and "Fetch q \<in> set evs"
    and "fetch w q = None \<or> (\<exists>resp. fetch w q = Some resp \<and> \<not> ok resp)"
  shows "(\<exists>e. r = Inl e) \<and> s' = s \<and> evs = [Fetch q]"
  using assms
  by (auto simp: getAccessToken_def exchange_def Let_def
           split: option.splits bool.splits if_splits)

lemma token_cache_surjective:
  "s\<lparr>cachedToken := a, tokenExpiry := b\<rparr> = \<lparr>cachedToken = a, tokenExpiry = b\<rparr>"
  by (cases s) simp

text \<open>
  Every way \<^verbatim>\<open>getAccessToken\<close> can leave the cache: untouched; both variables replaced, the
  expiry by \<^verbatim>\<open>now + data.expires_in\<close>; or, when that addition throws, the token replaced and
  the expiry not.
\<close>

lemma exchange_cache_cases:
  assumes "exchange rt cfg w s now = (r, s', evs)"
  shows "s' = s \<or>
         (\<exists>data tok lifetime.
            js_get data ''access_token'' = Some tok \<and>
            js_get data ''expires_in'' = Some lifetime \<and>
            (case js_add rt (JNum (Fin now)) lifetime of
               Some expiry \<Rightarrow> s' = \<lparr>cachedToken = tok, tokenExpiry = expiry\<rparr> \<and> r = Inr tok
             | None \<Rightarrow> s' = s\<lparr>cachedToken := tok\<rparr> \<and> r = Inl TypeError))"
proof (cases "rsa_sha256_sign rt (private_key cfg) (unsigned_token rt cfg now)")
  case None
  with assms show ?thesis by (simp add: exchange_def Let_def)
next
  case (Some sg)
  let ?q = "token_request (unsigned_token rt cfg now @ ''.'' @ sg)"
  show ?thesis
  proof (cases "fetch w ?q")
    case None
    with Some assms show ?thesis by (simp add: exchange_def Let_def)
  next
    case (Some resp)
    note resp = this
    show ?thesis
    proof (cases "json resp")
      case None
      with resp \<open>rsa_sha256_sign rt (private_key cfg) (unsigned_token rt cfg now) = Some sg\<close> assms
      show ?thesis by (simp add: exchange_def Let_def)
    next
      case (Some data)
      note data = this
      show ?thesis
      proof (cases "ok resp \<and> js_get data ''access_token'' \<noteq> None")
        case False
        with data resp \<open>rsa_sha256_sign rt (private_key cfg) (unsigned_token rt cfg now) = Some sg\<close> assms
        have "s' = s" by (auto simp: exchange_def Let_def split: option.splits if_splits)
        then show ?thesis by simp
      next
        case True
        then obtain tok where tok: "js_get data ''access_token'' = Some tok" by auto
        then obtain lifetime where lt: "js_get data ''expires_in'' = Some lifetime"
          by (cases data) auto
        have "case js_add rt (JNum (Fin now)) lifetime of
               Some expiry \<Rightarrow> s' = \<lparr>cachedToken = tok, tokenExpiry = expiry\<rparr> \<and> r = Inr tok
             | None \<Rightarrow> s' = s\<lparr>cachedToken := tok\<rparr> \<and> r = Inl TypeError"
          using True tok lt data resp
            \<open>rsa_sha256_sign rt (private_key cfg) (unsigned_token rt cfg now) = Some sg\<close> assms
          by (auto simp: exchange_def Let_def token_cache_surjective split: option.splits)
        with tok lt show ?thesis by blast
      qed
    qed
  qed
qed

lemma getAccessToken_cache_cases:
  assumes "getAccessToken rt cfg w s = (r, s', evs)"
  shows "s' = s \<or>
         (\<exists>data tok lifetime.
            js_get data ''access_token'' = Some tok \<and>
            js_get data ''expires_in'' = Some lifetime \<and>
            (case js_add rt (JNum (Fin (Date_now w div 1000))) lifetime of
               Some expiry \<Rightarrow> s' = \<lparr>cachedToken = tok, tokenExpiry = expiry\<rparr> \<and> r = Inr tok
             | None \<Rightarrow> s' = s\<lparr>cachedToken := tok\<rparr> \<and> r = Inl TypeError))"
proof (cases "cache_valid rt s (Date_now w div 1000) = Some False")
  case True
  with assms have "exchange rt cfg w s (Date_now w div 1000) = (r, s', evs)"
    by (simp add: getAccessToken_def)
  then show ?thesis by (rule exchange_cache_cases)
next
  case False
  with assms have "s' = s"
    by (auto simp: getAccessToken_def Let_def split: option.splits bool.splits)
  then show ?thesis by simp
qed

subsection \<open>The appender and the submission handler\<close>

lemma appendToSheet_run:
  assumes "appendToSheet rt cfg w s values = (r, s', evs)"
  shows "\<exists>r0 evs0 tail. getAccessToken rt cfg w s = (r0, s', evs0) \<and>
           evs = AppendToSheet values # evs0 @ tail \<and> token_exchanges tail = 0 \<and>
           (\<forall>e. r0 = Inl e \<longrightarrow> r = Inl e)"
  using assms
  by (auto simp: appendToSheet_def Let_def append_request_def sheets_url_not_token_url
           split: prod.splits sum.splits option.splits if_splits)

lemma appendToSheet_announces:
  "\<exists>evs. snd (snd (appendToSheet rt cfg w s values)) = AppendToSheet values # evs"
  by (simp add: appendToSheet_def Let_def split: prod.splits sum.splits option.splits)

lemma json_response_fields [simp]:
  "statusCode (json_response rt code key msg res) = code"
  "body (json_response rt code key msg res) = JSON_stringify rt (JObj [(key, JStr msg)])"
  by (simp_all add: json_response_def res_end_def writeHead_def)

lemma on_end_run:
  assumes "on_end rt cfg w s text res = (res', s', evs)"
  shows "(evs = [] \<and> s' = s \<and> statusCode res' \<noteq> 200) \<or>
         (\<exists>row r. appendToSheet rt cfg w s row = (r, s', evs) \<and>
            statusCode res' = (case r of Inl e \<Rightarrow> 500 | Inr v \<Rightarrow> 200))"
  using assms
  by (fastforce simp: on_end_def Let_def json_response_def res_end_def writeHead_def
           split: prod.splits sum.splits option.splits if_splits)

lemma on_end_valid:
  assumes "JSON_parse rt text = Some data"
    and "js_get data ''name'' = Some name" and "js_get data ''surname'' = Some surname"
    and "js_get data ''birthdate'' = Some birthdate" and "js_get data ''whatsapp'' = Some whatsapp"
    and "js_get data ''email'' = Some email"
    and "truthy name" and "truthy surname" and "truthy email"
    and "appendToSheet rt cfg w s [JStr (toISOString w), name, surname, js_or birthdate (JStr []),
           js_or whatsapp (JStr []), email] = (r, s', evs)"
  shows "on_end rt cfg w s text res =
           (case r of Inl e \<Rightarrow> json_response rt 500 ''error'' msg_failure res
                    | Inr v \<Rightarrow> json_response rt 200 ''message'' msg_success res, s', evs)"
  using assms by (simp add: on_end_def Let_def split: sum.splits)

lemma handler_submit:
  "req_method req = ''POST'' \<Longrightarrow> url_parse rt (req_url req) = Some parsedUrl \<Longrightarrow>
   pathname parsedUrl = Some ''/submit'' \<Longrightarrow>
     handler rt cfg w s req =
       (case on_end rt cfg w s (concat (map (chunk_toString rt) (chunks req))) (cors new_response)
        of (answer, s', evs) \<Rightarrow> (Some answer, s', evs))"
  by (simp add: handler_def Let_def)

lemma handler_run:
  assumes "handler rt cfg w s req = (res, s', evs)"
  shows "(evs = [] \<and> s' = s) \<or>
         (req_method req = ''POST'' \<and>
          (\<exists>row r. appendToSheet rt cfg w s row = (r, s', evs) \<and>
            map_option statusCode res = Some (case r of Inl e \<Rightarrow> 500 | Inr v \<Rightarrow> 200)))"
proof (cases "url_parse rt (req_url req)")
  case None
  with assms show ?thesis by (simp add: handler_def)
next
  case (Some parsedUrl)
  show ?thesis
  proof (cases "req_method req \<noteq> ''OPTIONS'' \<and> req_method req = ''POST'' \<and>
                pathname parsedUrl = Some ''/submit''")
    case True
    obtain answer sb evsb where
      o: "on_end rt cfg w s (concat (map (chunk_toString rt) (chunks req))) (cors new_response) =
            (answer, sb, evsb)"
      by (cases "on_end rt cfg w s (concat (map (chunk_toString rt) (chunks req)))
                   (cors new_response)") auto
    with assms Some True have r: "res = Some answer" "s' = sb" "evs = evsb"
      by (simp_all add: handler_def Let_def)
    from on_end_run[OF o] True r show ?thesis by auto
  next
    case False
    with assms Some show ?thesis
      by (auto simp: handler_def Let_def split: if_splits option.splits)
  qed
qed

subsection \<open>Static files and headers\<close>

lemma serveStaticFile_status: "statusCode (serveStaticFile rt cfg w p res) = 200"
  by (simp add: serveStaticFile_def Let_def res_end_def writeHead_def split: option.splits)

lemma serveStaticFile_fallback:
  "readFile w filePath = None \<Longrightarrow>
     serveStaticFile rt cfg w filePath res =
       res_end (case readFile_fallback w (path_join rt (dirname cfg) ''index.html'') of
                  Some indexContent \<Rightarrow> indexContent | None \<Rightarrow> [])
         (writeHead 200 [(''Content-Type'', ''text/html'')] res)"
  by (simp add: serveStaticFile_def Let_def split: option.splits)

lemma map_of_put_header:
  "map_of (put_header k v hs) k' = (if k' = k then Some v else map_of hs k')"
  by (induction hs) (auto simp: put_header_def)

lemma cors_headers:
  "map_of (headers (cors res)) ''Access-Control-Allow-Origin'' = Some ''*''"
  "map_of (headers (cors res)) ''Access-Control-Allow-Methods'' = Some ''GET, POST, OPTIONS''"
  "map_of (headers (cors res)) ''Access-Control-Allow-Headers'' = Some ''Content-Type''"
  by (simp_all add: cors_def setHeader_def map_of_put_header)

lemma serveStaticFile_headers:
  "k \<noteq> ''Content-Type'' \<Longrightarrow>
     map_of (headers (serveStaticFile rt cfg w p res)) k = map_of (headers res) k"
  by (simp add: serveStaticFile_def Let_def res_end_def writeHead_def map_of_put_header
           split: option.splits)

lemma on_end_headers:
  "k \<noteq> ''Content-Type'' \<Longrightarrow>
     map_of (headers (fst (on_end rt cfg w s text res))) k = map_of (headers res) k"
  by (simp add: on_end_def Let_def json_response_def res_end_def writeHead_def map_of_put_header
           split: option.splits prod.splits sum.splits)

lemma handler_headers:
  "fst (handler rt cfg w s req) = Some answer \<Longrightarrow> k \<noteq> ''Content-Type'' \<Longrightarrow>
     map_of (headers answer) k = map_of (headers (cors new_response)) k"
  using on_end_headers[of k rt cfg w s "concat (map (chunk_toString rt) (chunks req))"
          "cors new_response"]
  by (auto simp: handler_def Let_def serveStaticFile_headers res_end_def writeHead_def
           split: option.splits if_splits prod.splits)

text \<open>
  Where \<^verbatim>\<open>url.parse\<close> returns: an \<^verbatim>\<open>OPTIONS\<close> request is answered 204 with no body, and whatever
  answer a request gets carries the three cross-origin headers.
\<close>

lemma options_when_parsed:
  "url_parse rt (req_url req) = Some parsedUrl \<Longrightarrow> req_method req = ''OPTIONS'' \<Longrightarrow>
     \<exists>answer. handler rt cfg w s req = (Some answer, s, []) \<and> statusCode answer = 204 \<and>
       body answer = []"
  by (simp add: handler_def Let_def res_end_def writeHead_def)

lemma answers_carry_cors:
  assumes "fst (handler rt cfg w s req) = Some answer"
  shows "map_of (headers answer) ''Access-Control-Allow-Origin'' = Some ''*'' \<and>
         map_of (headers answer) ''Access-Control-Allow-Methods'' = Some ''GET, POST, OPTIONS'' \<and>
         map_of (headers answer) ''Access-Control-Allow-Headers'' = Some ''Content-Type''"
  using handler_headers[OF assms] by (simp add: cors_headers)

subsection \<open>The sample deployment, evaluated\<close>

lemma sample_unsigned_token:
  "unsigned_token sample_runtime sample_config 1700000000 @ ''.'' @ ''c2ln'' = sample_assertion"
  by (simp add: model_defs sample_defs)

lemma sample_first_token:
  "getAccessToken sample_runtime sample_config sample_world initial_cache =
     (Inr (JStr ''ya29.T''), warm_cache, [Fetch (token_request sample_assertion)])"
  by (simp add: model_defs sample_defs Let_def)

lemma sample_first_submission:
  "handler sample_runtime sample_config sample_world initial_cache ana_request =
     (Some (json_response sample_runtime 200 ''message'' msg_success (cors new_response)),
      warm_cache,
      [AppendToSheet ana_row, Fetch (token_request sample_assertion),
       Fetch (append_request sample_runtime sample_config ''ya29.T'' ana_row)])"
  by (simp add: model_defs sample_defs Let_def)

lemma sample_second_submission:
  "handler sample_runtime sample_config later_world warm_cache ana_request =
     (Some (json_response sample_runtime 200 ''message'' msg_success (cors new_response)),
      warm_cache,
      [AppendToSheet [JStr ''2023-11-14T22:14:20.000Z'', JStr ''Ana'', JStr ''Silva'', JStr [],
                      JStr [], JStr ''a@x.com''],
       Fetch (append_request sample_runtime sample_config ''ya29.T''
                [JStr ''2023-11-14T22:14:20.000Z'', JStr ''Ana'', JStr ''Silva'', JStr [],
                 JStr [], JStr ''a@x.com''])])"
  by (simp add: model_defs sample_defs Let_def)

lemma sample_denied_token:
  "getAccessToken sample_runtime sample_config denied_world initial_cache =
     (Inl (TokenRequestFailed (JObj [(''error'', JStr ''invalid_grant'')])), initial_cache,
      [Fetch (token_request sample_assertion)])"
  by (simp add: model_defs sample_defs Let_def)

lemma sample_denied_submission:
  "handler sample_runtime sample_config denied_world initial_cache ana_request =
     (Some (json_response sample_runtime 500 ''error'' msg_failure (cors new_response)),
      initial_cache,
      [AppendToSheet ana_row, Fetch (token_request sample_assertion)])"
  by (simp add: model_defs sample_defs Let_def)

section \<open>The claims\<close>

subsection \<open>C1: a valid cached token is reused\<close>

text \<open>
  Claim C1. Whenever \<^verbatim>\<open>getAccessToken\<close> is called while a cached token exists and its recorded
  expiry minus the margin of 5 seconds is strictly later than the current time, the cached
  token is returned at once, the cache is left as it is and no call goes to the token
  endpoint. Consequently, of two submissions the first of which finds the cache stale and
  has its exchange answered with a token and a lifetime, and the second of which arrives
  within that token's validity window, exactly one token exchange is made: that of the
  first. The second request leaves the cache as the first left it.
\<close>

theorem cached_token_reused:
  "(truthy (cachedToken s) \<and> js_sub rt (tokenExpiry s) (JNum (Fin 5)) = Some d \<and>
      num_gt d (Fin (Date_now w div 1000))
     \<longrightarrow> getAccessToken rt cfg w s = (Inr (cachedToken s), s, []))
   \<and>
   (handler rt cfg wa sa reqa = (resa, sb, evsa) \<and> AppendToSheet rowa \<in> set evsa \<and>
    handler rt cfg wb sb reqb = (resb, sc, evsb) \<and>
    cache_valid rt sa (Date_now wa div 1000) = Some False \<and>
    rsa_sha256_sign rt (private_key cfg) (unsigned_token rt cfg (Date_now wa div 1000)) = Some sg \<and>
    fetch wa (token_request (unsigned_token rt cfg (Date_now wa div 1000) @ ''.'' @ sg)) = Some resp \<and>
    ok resp \<and> json resp = Some data \<and>
    js_get data ''access_token'' = Some tok \<and> truthy tok \<and>
    js_get data ''expires_in'' = Some (JNum (Fin lifetime)) \<and>
    Date_now wa div 1000 + lifetime - 5 > Date_now wb div 1000
     \<longrightarrow> token_exchanges (evsa @ evsb) = 1 \<and> sc = sb \<and> cachedToken sc = tok)"
proof (rule conjI; rule impI)
  assume "truthy (cachedToken s) \<and> js_sub rt (tokenExpiry s) (JNum (Fin 5)) = Some d \<and>
      num_gt d (Fin (Date_now w div 1000))"
  then have "cache_valid rt s (Date_now w div 1000) = Some True"
    by (auto simp: cache_valid_Some_True)
  then show "getAccessToken rt cfg w s = (Inr (cachedToken s), s, [])"
    by (rule getAccessToken_hit)
next
  assume a: "handler rt cfg wa sa reqa = (resa, sb, evsa) \<and> AppendToSheet rowa \<in> set evsa \<and>
    handler rt cfg wb sb reqb = (resb, sc, evsb) \<and>
    cache_valid rt sa (Date_now wa div 1000) = Some False \<and>
    rsa_sha256_sign rt (private_key cfg) (unsigned_token rt cfg (Date_now wa div 1000)) = Some sg \<and>
    fetch wa (token_request (unsigned_token rt cfg (Date_now wa div 1000) @ ''.'' @ sg)) = Some resp \<and>
    ok resp \<and> json resp = Some data \<and>
    js_get data ''access_token'' = Some tok \<and> truthy tok \<and>
    js_get data ''expires_in'' = Some (JNum (Fin lifetime)) \<and>
    Date_now wa div 1000 + lifetime - 5 > Date_now wb div 1000"
  let ?now = "Date_now wa div 1000"
  let ?q = "token_request (unsigned_token rt cfg ?now @ ''.'' @ sg)"
  let ?sb = "\<lparr>cachedToken = tok, tokenExpiry = JNum (Fin (?now + lifetime))\<rparr>"
  have first: "getAccessToken rt cfg wa sa = (Inr tok, ?sb, [Fetch ?q])"
    using a exchange_success[of rt cfg ?now sg wa resp data tok "JNum (Fin lifetime)"
                              "JNum (Fin (?now + lifetime))" sa]
    by (simp add: getAccessToken_miss js_add_numbers)
  from a handler_run[of rt cfg wa sa reqa resa sb evsa]
  obtain row r where ap1: "appendToSheet rt cfg wa sa row = (r, sb, evsa)"
    by auto
  from appendToSheet_run[OF ap1] first
  have sb: "sb = ?sb" and n1: "token_exchanges evsa = 1"
    by (auto simp: token_request_def)
  have "cache_valid rt sb (Date_now wb div 1000) = Some True"
    using a by (simp add: sb cache_valid_def js_sub_numbers)
  then have second: "getAccessToken rt cfg wb sb = (Inr (cachedToken sb), sb, [])"
    by (rule getAccessToken_hit)
  from a have h2: "handler rt cfg wb sb reqb = (resb, sc, evsb)" by simp
  have "token_exchanges evsb = 0 \<and> sc = sb"
    using handler_run[OF h2]
  proof
    assume "evsb = [] \<and> sc = sb"
    then show ?thesis by simp
  next
    assume "req_method reqb = ''POST'' \<and>
      (\<exists>row r. appendToSheet rt cfg wb sb row = (r, sc, evsb) \<and>
         map_option statusCode resb = Some (case r of Inl e \<Rightarrow> 500 | Inr v \<Rightarrow> 200))"
    then obtain row2 r2 where ap2: "appendToSheet rt cfg wb sb row2 = (r2, sc, evsb)"
      by blast
    from appendToSheet_run[OF ap2] second show ?thesis by auto
  qed
  with n1 sb show "token_exchanges (evsa @ evsb) = 1 \<and> sc = sb \<and> cachedToken sc = tok"
    by simp
qed

text \<open>
  On the sample deployment: the first submission finds the initial cache and exchanges, the
  second comes a minute later while the token is good for another 3539 seconds.
\<close>

theorem cached_token_reused_witness:
  "getAccessToken sample_runtime sample_config later_world warm_cache =
     (Inr (JStr ''ya29.T''), warm_cache, []) \<and>
   token_exchanges
     (snd (snd (handler sample_runtime sample_config sample_world initial_cache ana_request)) @
      snd (snd (handler sample_runtime sample_config later_world warm_cache ana_request))) = 1 \<and>
   fst (snd (handler sample_runtime sample_config later_world warm_cache ana_request)) = warm_cache"
proof -
  let ?resa = "fst (handler sample_runtime sample_config sample_world initial_cache ana_request)"
  let ?evsa = "snd (snd (handler sample_runtime sample_config sample_world initial_cache ana_request))"
  let ?resb = "fst (handler sample_runtime sample_config later_world warm_cache ana_request)"
  let ?evsb = "snd (snd (handler sample_runtime sample_config later_world warm_cache ana_request))"
  have hit: "truthy (cachedToken warm_cache) \<and>
      js_sub sample_runtime (tokenExpiry warm_cache) (JNum (Fin 5)) = Some (Fin 1700003594) \<and>
      num_gt (Fin 1700003594) (Fin (Date_now later_world div 1000))"
    by (simp add: warm_cache_def later_world_def sample_world_def js_sub_numbers)
  have now: "Date_now sample_world div 1000 = 1700000000"
    by (simp add: sample_world_def)
  have two: "handler sample_runtime sample_config sample_world initial_cache ana_request =
      (?resa, warm_cache, ?evsa) \<and> AppendToSheet ana_row \<in> set ?evsa \<and>
    handler sample_runtime sample_config later_world warm_cache ana_request =
      (?resb, warm_cache, ?evsb) \<and>
    cache_valid sample_runtime initial_cache (Date_now sample_world div 1000) = Some False \<and>
    rsa_sha256_sign sample_runtime (private_key sample_config)
      (unsigned_token sample_runtime sample_config (Date_now sample_world div 1000)) = Some ''c2ln'' \<and>
    fetch sample_world (token_request
      (unsigned_token sample_runtime sample_config (Date_now sample_world div 1000) @ ''.'' @ ''c2ln''))
      = Some token_reply \<and>
    ok token_reply \<and>
    json token_reply = Some (JObj [(''access_token'', JStr ''ya29.T''),
                                   (''expires_in'', JNum (Fin 3599))]) \<and>
    js_get (JObj [(''access_token'', JStr ''ya29.T''), (''expires_in'', JNum (Fin 3599))])
      ''access_token'' = Some (JStr ''ya29.T'') \<and> truthy (JStr ''ya29.T'') \<and>
    js_get (JObj [(''access_token'', JStr ''ya29.T''), (''expires_in'', JNum (Fin 3599))])
      ''expires_in'' = Some (JNum (Fin 3599)) \<and>
    Date_now sample_world div 1000 + 3599 - 5 > Date_now later_world div 1000"
    unfolding now
    by (simp add: sample_first_submission sample_second_submission sample_unsigned_token)
       (simp add: sample_runtime_def sample_world_def later_world_def token_reply_def ok_def
          token_request_def cache_valid_def initial_cache_def)
  from cached_token_reused[where s = warm_cache and rt = sample_runtime and d = "Fin 1700003594"
      and w = later_world and cfg = sample_config and wa = sample_world and sa = initial_cache
      and reqa = ana_request and resa = ?resa and sb = warm_cache and evsa = ?evsa
      and rowa = ana_row and wb = later_world and reqb = ana_request and resb = ?resb
      and sc = warm_cache and evsb = ?evsb and sg = "''c2ln''" and resp = token_reply
      and data = "JObj [(''access_token'', JStr ''ya29.T''), (''expires_in'', JNum (Fin 3599))]"
      and tok = "JStr ''ya29.T''" and lifetime = 3599] hit two
  have "getAccessToken sample_runtime sample_config later_world warm_cache =
          (Inr (cachedToken warm_cache), warm_cache, []) \<and>
        token_exchanges (?evsa @ ?evsb) = 1"
    by blast
  then show ?thesis
    by (simp add: sample_second_submission) (simp add: warm_cache_def)
qed

subsection \<open>C2: the row of a valid submission\<close>

text \<open>
  Claim C2, as amended. For every \<^verbatim>\<open>POST /submit\<close> whose parsed body has a truthy \<^verbatim>\<open>name\<close>,
  \<^verbatim>\<open>surname\<close> and \<^verbatim>\<open>email\<close> (present and non-empty), \<^verbatim>\<open>appendToSheet\<close> is called with the row
  \<^verbatim>\<open>[timestamp, name, surname, birthdate, whatsapp, email]\<close>, the timestamp being the server's
  \<^verbatim>\<open>new Date().toISOString()\<close> and an absent (or otherwise falsy) \<^verbatim>\<open>birthdate\<close> or \<^verbatim>\<open>whatsapp\<close>
  replaced by the empty string, so that neither is ever \<^verbatim>\<open>null\<close> or \<^verbatim>\<open>undefined\<close>. The response
  is 200 with the success payload when \<^verbatim>\<open>appendToSheet\<close> returns, and 500 with the generic
  error payload when it throws.
\<close>

theorem valid_submission_appended:
  assumes "req_method req = ''POST''"
    and "url_parse rt (req_url req) = Some parsedUrl" and "pathname parsedUrl = Some ''/submit''"
    and "JSON_parse rt (concat (map (chunk_toString rt) (chunks req))) = Some data"
    and "js_get data ''name'' = Some name" and "js_get data ''surname'' = Some surname"
    and "js_get data ''birthdate'' = Some birthdate" and "js_get data ''whatsapp'' = Some whatsapp"
    and "js_get data ''email'' = Some email"
    and "truthy name" and "truthy surname" and "truthy email"
    and "row = [JStr (toISOString w), name, surname,
                if truthy birthdate then birthdate else JStr [],
                if truthy whatsapp then whatsapp else JStr [], email]"
  shows "(\<exists>evs. snd (snd (handler rt cfg w s req)) = AppendToSheet row # evs) \<and>
         row ! 3 \<noteq> JUndefined \<and> row ! 3 \<noteq> JNull \<and> row ! 4 \<noteq> JUndefined \<and> row ! 4 \<noteq> JNull \<and>
         map_option statusCode (fst (handler rt cfg w s req)) =
           Some (case fst (appendToSheet rt cfg w s row) of Inr v \<Rightarrow> 200 | Inl e \<Rightarrow> 500) \<and>
         map_option body (fst (handler rt cfg w s req)) =
           Some (case fst (appendToSheet rt cfg w s row) of
                   Inr v \<Rightarrow> JSON_stringify rt (JObj [(''message'', JStr msg_success)])
                 | Inl e \<Rightarrow> JSON_stringify rt (JObj [(''error'', JStr msg_failure)]))"
proof -
  have row: "row = [JStr (toISOString w), name, surname, js_or birthdate (JStr []),
                    js_or whatsapp (JStr []), email]"
    using assms(13) by (simp add: js_or_def)
  obtain r s' evs where ap: "appendToSheet rt cfg w s row = (r, s', evs)"
    by (cases "appendToSheet rt cfg w s row") auto
  have h: "handler rt cfg w s req =
             (Some (case r of
                      Inl e \<Rightarrow> json_response rt 500 ''error'' msg_failure (cors new_response)
                    | Inr v \<Rightarrow> json_response rt 200 ''message'' msg_success (cors new_response)),
              s', evs)"
    using assms(1-12) ap
      on_end_valid[of rt "concat (map (chunk_toString rt) (chunks req))" data name surname
        birthdate whatsapp email cfg w s r s' evs "cors new_response"]
    by (simp add: handler_submit row)
  from appendToSheet_announces[of rt cfg w s row] ap
  have "\<exists>evs'. evs = AppendToSheet row # evs'" by simp
  moreover have "row ! 3 \<noteq> JUndefined \<and> row ! 3 \<noteq> JNull \<and> row ! 4 \<noteq> JUndefined \<and> row ! 4 \<noteq> JNull"
    using js_or_defined[of birthdate] js_or_defined[of whatsapp] by (simp add: row)
  ultimately show ?thesis
    using h ap by (simp split: sum.splits)
qed

text \<open>
  The submission \<^verbatim>\<open>{"name":"Ana","surname":"Silva","email":"a@x.com"}\<close> on the sample
  deployment: the row has two empty strings, and the answer is 200.
\<close>

theorem valid_submission_appended_witness:
  "(\<exists>evs. snd (snd (handler sample_runtime sample_config sample_world initial_cache ana_request)) =
           AppendToSheet [JStr ''2023-11-14T22:13:20.123Z'', JStr ''Ana'', JStr ''Silva'',
                          JStr [], JStr [], JStr ''a@x.com''] # evs) \<and>
   map_option statusCode
     (fst (handler sample_runtime sample_config sample_world initial_cache ana_request)) = Some 200 \<and>
   map_option body
     (fst (handler sample_runtime sample_config sample_world initial_cache ana_request)) =
     Some (JSON_stringify sample_runtime (JObj [(''message'', JStr msg_success)]))"
proof -
  have post: "req_method ana_request = ''POST''"
    by (simp add: ana_request_def)
  have url: "url_parse sample_runtime (req_url ana_request) = Some \<lparr>pathname = Some ''/submit''\<rparr>"
    by (simp add: sample_runtime_def sample_url_parse_def ana_request_def)
  have path: "pathname \<lparr>pathname = Some ''/submit''\<rparr> = Some ''/submit''"
    by simp
  have parse: "JSON_parse sample_runtime
      (concat (map (chunk_toString sample_runtime) (chunks ana_request))) = Some ana"
    by (simp add: sample_runtime_def ana_request_def)
  have fields: "js_get ana ''name'' = Some (JStr ''Ana'')" "js_get ana ''surname'' = Some (JStr ''Silva'')"
    "js_get ana ''birthdate'' = Some JUndefined" "js_get ana ''whatsapp'' = Some JUndefined"
    "js_get ana ''email'' = Some (JStr ''a@x.com'')"
    by (simp_all add: ana_def)
  have row: "ana_row = [JStr (toISOString sample_world), JStr ''Ana'', JStr ''Silva'',
                if truthy JUndefined then JUndefined else JStr [],
                if truthy JUndefined then JUndefined else JStr [], JStr ''a@x.com'']"
    by (simp add: ana_row_def sample_world_def)
  have ap: "fst (appendToSheet sample_runtime sample_config sample_world initial_cache ana_row) =
              Inr (JObj [])"
    by (simp add: model_defs sample_defs Let_def)
  from valid_submission_appended[OF post url path parse fields(1,2,3,4,5) _ _ _ row,
      of sample_config initial_cache] ap
  show ?thesis
    by (simp add: ana_row_def)
qed

text \<open>
  The claim as it was stated promises a 200 for every valid submission. When the spreadsheet
  refuses the append, the same submission is answered with 500.
\<close>

theorem valid_submission_counterexample:
  "req_method ana_request = ''POST'' \<and>
   url_parse sample_runtime (req_url ana_request) = Some \<lparr>pathname = Some ''/submit''\<rparr> \<and>
   JSON_parse sample_runtime (concat (map (chunk_toString sample_runtime) (chunks ana_request)))
     = Some ana \<and>
   js_get ana ''name'' = Some (JStr ''Ana'') \<and> js_get ana ''surname'' = Some (JStr ''Silva'') \<and>
   js_get ana ''email'' = Some (JStr ''a@x.com'') \<and>
   map_option statusCode
     (fst (handler sample_runtime sample_config unshared_world initial_cache ana_request))
     = Some 500"
  by (simp add: model_defs sample_defs Let_def)

subsection \<open>C3: an incomplete submission\<close>

text \<open>
  Claim C3, as amended. For every \<^verbatim>\<open>POST /submit\<close> whose body parses to a value other than
  \<^verbatim>\<open>null\<close> and whose \<^verbatim>\<open>name\<close>, \<^verbatim>\<open>surname\<close> or \<^verbatim>\<open>email\<close> is missing or empty (falsy), the response is
  400 with the error payload, \<^verbatim>\<open>appendToSheet\<close> is not called, no call goes out and the token
  cache is left as it was.
\<close>

theorem incomplete_submission_rejected:
  assumes "req_method req = ''POST''"
    and "url_parse rt (req_url req) = Some parsedUrl" and "pathname parsedUrl = Some ''/submit''"
    and "JSON_parse rt (concat (map (chunk_toString rt) (chunks req))) = Some data"
    and "js_get data ''name'' = Some name" and "js_get data ''surname'' = Some surname"
    and "js_get data ''email'' = Some email"
    and "\<not> truthy name \<or> \<not> truthy surname \<or> \<not> truthy email"
  shows "map_option statusCode (fst (handler rt cfg w s req)) = Some 400 \<and>
         map_option body (fst (handler rt cfg w s req)) =
           Some (JSON_stringify rt (JObj [(''error'', JStr msg_required)])) \<and>
         snd (handler rt cfg w s req) = (s, [])"
proof -
  from assms(5) have "data \<noteq> JNull" "data \<noteq> JUndefined" by auto
  then obtain bd wa where "js_get data ''birthdate'' = Some bd" "js_get data ''whatsapp'' = Some wa"
    by (cases data) auto
  with assms show ?thesis
    by (auto simp: handler_submit on_end_def)
qed

text \<open>The submission \<^verbatim>\<open>{"surname":"Silva","email":"a@x.com"}\<close>, which has no name.\<close>

theorem incomplete_submission_rejected_witness:
  "map_option statusCode
     (fst (handler sample_runtime sample_config sample_world initial_cache nameless_request))
     = Some 400 \<and>
   snd (handler sample_runtime sample_config sample_world initial_cache nameless_request) =
     (initial_cache, [])"
proof -
  have post: "req_method nameless_request = ''POST''"
    by (simp add: nameless_request_def)
  have url: "url_parse sample_runtime (req_url nameless_request) =
               Some \<lparr>pathname = Some ''/submit''\<rparr>"
    by (simp add: sample_runtime_def sample_url_parse_def nameless_request_def)
  have path: "pathname \<lparr>pathname = Some ''/submit''\<rparr> = Some ''/submit''"
    by simp
  have parse: "JSON_parse sample_runtime
      (concat (map (chunk_toString sample_runtime) (chunks nameless_request))) = Some nameless"
    by (simp add: sample_runtime_def nameless_request_def nameless_text_def ana_text_def)
  have fields: "js_get nameless ''name'' = Some JUndefined"
    "js_get nameless ''surname'' = Some (JStr ''Silva'')"
    "js_get nameless ''email'' = Some (JStr ''a@x.com'')"
    by (simp_all add: nameless_def)
  have falsy: "\<not> truthy JUndefined \<or> \<not> truthy (JStr ''Silva'') \<or> \<not> truthy (JStr ''a@x.com'')"
    by simp
  from incomplete_submission_rejected[OF post url path parse fields falsy,
      of sample_config sample_world initial_cache]
  show ?thesis by simp
qed

text \<open>
  The claim as it was stated covers every parsed body that lacks a name. The body
  \<^verbatim>\<open>null\<close> parses, has no name, and is answered with 500: destructuring it throws.
\<close>

theorem incomplete_submission_counterexample:
  "req_method null_request = ''POST'' \<and>
   url_parse sample_runtime (req_url null_request) = Some \<lparr>pathname = Some ''/submit''\<rparr> \<and>
   JSON_parse sample_runtime (concat (map (chunk_toString sample_runtime) (chunks null_request)))
     = Some JNull \<and>
   js_get JNull ''name'' = None \<and>
   map_option statusCode
     (fst (handler sample_runtime sample_config sample_world initial_cache null_request))
     = Some 500"
  by (simp add: model_defs sample_defs Let_def)

subsection \<open>C4: a failed exchange leaves the cache alone\<close>

text \<open>
  Claim C4. For every call of \<^verbatim>\<open>getAccessToken\<close> whose request to the token endpoint is rejected
  in transport or answered with a status outside 200 to 299, the call throws and the token
  cache, token and expiry, is exactly as it was before; and a submission during which this
  happens is answered with 500, the cache again unchanged.
\<close>

theorem failed_exchange_keeps_cache:
  "(getAccessToken rt cfg w s = (r, s', evs) \<and> Fetch q \<in> set evs \<and>
    (fetch w q = None \<or> (\<exists>resp. fetch w q = Some resp \<and> \<not> ok resp))
      \<longrightarrow> (\<exists>e. r = Inl e) \<and> s' = s)
   \<and>
   (handler rt cfg w s req = (res, sb, evsb) \<and> Fetch q \<in> set evsb \<and> fetch_url q = token_url \<and>
    (fetch w q = None \<or> (\<exists>resp. fetch w q = Some resp \<and> \<not> ok resp))
      \<longrightarrow> map_option statusCode res = Some 500 \<and> sb = s)"
proof (rule conjI; rule impI)
  assume "getAccessToken rt cfg w s = (r, s', evs) \<and> Fetch q \<in> set evs \<and>
    (fetch w q = None \<or> (\<exists>resp. fetch w q = Some resp \<and> \<not> ok resp))"
  then show "(\<exists>e. r = Inl e) \<and> s' = s"
    using getAccessToken_failed_exchange[of rt cfg w s r s' evs q] by blast
next
  assume a: "handler rt cfg w s req = (res, sb, evsb) \<and> Fetch q \<in> set evsb \<and>
    fetch_url q = token_url \<and>
    (fetch w q = None \<or> (\<exists>resp. fetch w q = Some resp \<and> \<not> ok resp))"
  then have "evsb \<noteq> []" by auto
  with a handler_run[of rt cfg w s req res sb evsb]
  obtain row r1 where ap: "appendToSheet rt cfg w s row = (r1, sb, evsb)"
    and st: "map_option statusCode res = Some (case r1 of Inl e \<Rightarrow> 500 | Inr v \<Rightarrow> 200)"
    by auto
  from appendToSheet_run[OF ap]
  obtain r0 evs0 tail where g: "getAccessToken rt cfg w s = (r0, sb, evs0)"
    and e: "evsb = AppendToSheet row # evs0 @ tail" and t: "token_exchanges tail = 0"
    and f: "\<forall>e. r0 = Inl e \<longrightarrow> r1 = Inl e"
    by blast
  have "Fetch q \<notin> set tail"
    using token_fetch_counted[of q tail] a t by auto
  with a e have "Fetch q \<in> set evs0" by auto
  from getAccessToken_failed_exchange[OF g this] a f st
  show "map_option statusCode res = Some 500 \<and> sb = s" by auto
qed

text \<open>The token endpoint answers 400 \<^verbatim>\<open>invalid_grant\<close>.\<close>

theorem failed_exchange_keeps_cache_witness:
  "(\<exists>e. fst (getAccessToken sample_runtime sample_config denied_world initial_cache) = Inl e) \<and>
   fst (snd (getAccessToken sample_runtime sample_config denied_world initial_cache)) = initial_cache \<and>
   map_option statusCode
     (fst (handler sample_runtime sample_config denied_world initial_cache ana_request)) = Some 500 \<and>
   fst (snd (handler sample_runtime sample_config denied_world initial_cache ana_request)) =
     initial_cache"
proof -
  let ?q = "token_request sample_assertion"
  let ?g = "getAccessToken sample_runtime sample_config denied_world initial_cache"
  let ?h = "handler sample_runtime sample_config denied_world initial_cache ana_request"
  have refused: "fetch denied_world ?q = None \<or>
      (\<exists>resp. fetch denied_world ?q = Some resp \<and> \<not> ok resp)"
    by (simp add: denied_world_def sample_world_def token_request_def ok_def)
  have g: "?g = (fst ?g, fst (snd ?g), snd (snd ?g)) \<and> Fetch ?q \<in> set (snd (snd ?g))"
    by (simp add: sample_denied_token)
  have h: "?h = (fst ?h, fst (snd ?h), snd (snd ?h)) \<and> Fetch ?q \<in> set (snd (snd ?h)) \<and>
           fetch_url ?q = token_url"
    by (simp add: sample_denied_submission token_request_def)
  from failed_exchange_keeps_cache[of sample_runtime sample_config denied_world initial_cache
      "fst ?g" "fst (snd ?g)" "snd (snd ?g)" ?q ana_request "fst ?h" "fst (snd ?h)" "snd (snd ?h)"]
    refused g h
  show ?thesis by blast
qed

subsection \<open>C5: the token and its expiry\<close>

text \<open>
  Claim C5 says that \<^verbatim>\<open>getAccessToken\<close> replaces the token and the expiry together or leaves
  both. The code assigns \<^verbatim>\<open>cachedToken\<close> first and evaluates \<^verbatim>\<open>now + data.expires_in\<close> after:
  when the addition throws, the token has been replaced and the expiry has not
  (\<open>getAccessToken_cache_cases\<close> lists this case beside the two the claim allows). It throws on
  the answer \<^verbatim>\<open>{"access_token":"ya29.T","expires_in":{"toString":0}}\<close>, because the object
  cannot be converted to a primitive. On that answer the call below starts from the
  initial cache and ends with the new token beside the old expiry.
\<close>

theorem token_replaced_expiry_kept:
  "initial_cache = \<lparr>cachedToken = JNull, tokenExpiry = JNum (Fin 0)\<rparr> \<and>
   getAccessToken sample_runtime sample_config odd_lifetime_world initial_cache =
     (Inl TypeError, \<lparr>cachedToken = JStr ''ya29.T'', tokenExpiry = JNum (Fin 0)\<rparr>,
      [Fetch (token_request sample_assertion)])"
  by (simp add: model_defs sample_defs Let_def)

subsection \<open>C6: the signed assertion\<close>

text \<open>
  Claim C6. On every cache miss \<^verbatim>\<open>getAccessToken\<close> builds the assertion from the header
  \<^verbatim>\<open>{alg: RS256, typ: JWT}\<close> and the claims \<^verbatim>\<open>iss\<close> (the service account's email), \<^verbatim>\<open>scope\<close> (the
  spreadsheets scope), \<^verbatim>\<open>aud\<close> (the token endpoint), \<^verbatim>\<open>exp\<close> (now + 3600) and \<^verbatim>\<open>iat\<close> (now): the
  base64url of the header and of the claims joined by a dot, signed with RSA-SHA256 under the
  service account's private key, and the signature, in base64url, appended after a second
  dot. That assertion is what the one request to the token endpoint carries, as the
  \<^verbatim>\<open>assertion\<close> of a JWT-bearer grant. (Where the signer refuses the key there is no
  assertion, and no request.)
\<close>

theorem signed_assertion:
  assumes "cache_valid rt s (Date_now w div 1000) = Some False"
    and "now = Date_now w div 1000"
    and "unsignedToken =
           base64url (JSON_stringify rt (JObj [(''alg'', JStr ''RS256''), (''typ'', JStr ''JWT'')]))
           @ ''.'' @
           base64url (JSON_stringify rt
             (JObj [(''iss'', client_email cfg),
                    (''scope'', JStr ''https://www.googleapis.com/auth/spreadsheets''),
                    (''aud'', JStr ''https://oauth2.googleapis.com/token''),
                    (''exp'', JNum (Fin (now + 3600))),
                    (''iat'', JNum (Fin now))]))"
  shows "snd (snd (getAccessToken rt cfg w s)) =
           (case rsa_sha256_sign rt (private_key cfg) unsignedToken of
              None \<Rightarrow> []
            | Some signature \<Rightarrow>
                [Fetch \<lparr>fetch_url = ''https://oauth2.googleapis.com/token'',
                        fetch_method = ''POST'',
                        fetch_headers =
                          [(''Content-Type'', ''application/x-www-form-urlencoded'')],
                        fetch_payload = FormParams
                          [(''grant_type'', ''urn:ietf:params:oauth:grant-type:jwt-bearer''),
                           (''assertion'', unsignedToken @ ''.'' @ signature)]\<rparr>])"
proof -
  have u: "unsigned_token rt cfg (Date_now w div 1000) = unsignedToken"
    using assms(2,3) by (simp add: unsigned_token_def jwt_header_def jwt_payload_def)
  show ?thesis
    using assms(1)
    by (simp add: getAccessToken_miss exchange_def u Let_def token_request_def token_url_def
             split: option.splits)
qed

text \<open>
  On the sample deployment, at the second 1700000000, with the signature \<^verbatim>\<open>c2ln\<close>: the
  assertion starts with the familiar \<^verbatim>\<open>eyJhbGciOiJSUzI1NiIsInR5cCI6IkpXVCJ9\<close>.
\<close>

theorem signed_assertion_witness:
  "snd (snd (getAccessToken sample_runtime sample_config sample_world initial_cache)) =
     [Fetch \<lparr>fetch_url = ''https://oauth2.googleapis.com/token'',
             fetch_method = ''POST'',
             fetch_headers = [(''Content-Type'', ''application/x-www-form-urlencoded'')],
             fetch_payload = FormParams
               [(''grant_type'', ''urn:ietf:params:oauth:grant-type:jwt-bearer''),
                (''assertion'', sample_assertion)]\<rparr>]"
proof -
  let ?u = "base64url header_text @ ''.'' @ base64url payload_text"
  have miss: "cache_valid sample_runtime initial_cache (Date_now sample_world div 1000) = Some False"
    by (simp add: cache_valid_def initial_cache_def)
  have now: "(1700000000::int) = Date_now sample_world div 1000"
    by (simp add: sample_world_def)
  have u: "?u =
           base64url (JSON_stringify sample_runtime
             (JObj [(''alg'', JStr ''RS256''), (''typ'', JStr ''JWT'')]))
           @ ''.'' @
           base64url (JSON_stringify sample_runtime
             (JObj [(''iss'', client_email sample_config),
                    (''scope'', JStr ''https://www.googleapis.com/auth/spreadsheets''),
                    (''aud'', JStr ''https://oauth2.googleapis.com/token''),
                    (''exp'', JNum (Fin (1700000000 + 3600))),
                    (''iat'', JNum (Fin 1700000000))]))"
    by (simp add: sample_runtime_def sample_stringify_def jwt_header_def jwt_payload_def
          sample_config_def)
  have sg: "rsa_sha256_sign sample_runtime (private_key sample_config) ?u = Some ''c2ln''"
    by (simp add: sample_runtime_def)
  have a: "?u @ ''.'' @ ''c2ln'' = sample_assertion"
    by (simp add: sample_assertion_def header_text_def payload_text_def base64url_def sextet_def
          b64_alphabet_def)
  from signed_assertion[OF miss now u] show ?thesis
    by (simp only: sg option.case a)
qed

subsection \<open>C7: an unreadable file\<close>

text \<open>
  Claim C7, as amended. For every static-file request whose target file cannot be read, the
  responder answers 200, never 404 or another error status, and the body is the content of
  \<^verbatim>\<open>index.html\<close> as the fallback read returns it; when that read fails too, the body is empty.
\<close>

theorem unreadable_file_falls_back:
  assumes "readFile w filePath = None"
  shows "statusCode (serveStaticFile rt cfg w filePath res) = 200 \<and>
         body (serveStaticFile rt cfg w filePath res) =
           (case readFile_fallback w (path_join rt (dirname cfg) ''index.html'') of
              Some indexContent \<Rightarrow> indexContent
            | None \<Rightarrow> [])"
  using assms by (simp add: serveStaticFile_fallback res_end_def writeHead_def)

theorem unreadable_file_falls_back_witness:
  "statusCode (serveStaticFile sample_runtime sample_config sample_world ''/srv/missing.png''
     (cors new_response)) = 200 \<and>
   body (serveStaticFile sample_runtime sample_config sample_world ''/srv/missing.png''
     (cors new_response)) = ''<html>main</html>''"
proof -
  have missing: "readFile sample_world ''/srv/missing.png'' = None"
    by (simp add: sample_world_def site_files_def)
  have index: "readFile_fallback sample_world
      (path_join sample_runtime (dirname sample_config) ''index.html'') = Some ''<html>main</html>''"
    by (simp add: sample_world_def site_files_def sample_runtime_def sample_config_def)
  from unreadable_file_falls_back[OF missing, of sample_runtime sample_config "cors new_response"]
    index
  show ?thesis by simp
qed

text \<open>
  The claim as it was stated promises the content of the main page whenever the target
  cannot be read. Where \<^verbatim>\<open>index.html\<close> cannot be read either, the answer is 200 with an empty
  body.
\<close>

theorem unreadable_file_counterexample:
  "readFile bare_world ''/srv/missing.png'' = None \<and>
   readFile_fallback bare_world (path_join sample_runtime (dirname sample_config) ''index.html'')
     = None \<and>
   serveStaticFile sample_runtime sample_config bare_world ''/srv/missing.png'' (cors new_response) =
     \<lparr>statusCode = 200, headers = cors_list @ [(''Content-Type'', ''text/html'')], body = []\<rparr>"
  by (simp add: model_defs sample_defs Let_def)

subsection \<open>C8: OPTIONS and the cross-origin headers\<close>

text \<open>
  Claim C8 says that every \<^verbatim>\<open>OPTIONS\<close> request, whatever its target, is answered with 204 and
  an empty body, and that every response carries the permissive cross-origin headers; the
  code says as much (\<^verbatim>\<open>// Enable CORS for all routes\<close>). But the callback parses the target
  first: \<^verbatim>\<open>url.parse(req.url, true)\<close> stands before the three \<^verbatim>\<open>setHeader\<close> calls and the
  \<^verbatim>\<open>OPTIONS\<close> test and inside no \<^verbatim>\<open>try\<close>. For a target it refuses, such as that of
  \<^verbatim>\<open>OPTIONS http://[::1/x\<close>, the callback throws there, and the request gets no answer at
  all, neither a 204 nor any header. (On every target that \<^verbatim>\<open>url.parse\<close> accepts the claim
  holds: \<open>options_when_parsed\<close> and \<open>answers_carry_cors\<close>.)
\<close>

theorem options_unparsed_target_unanswered:
  "req_method options_bad_target = ''OPTIONS'' \<and>
   req_url options_bad_target = ''http://[::1/x'' \<and>
   url_parse sample_runtime (req_url options_bad_target) = None \<and>
   handler sample_runtime sample_config sample_world initial_cache options_bad_target =
     (None, initial_cache, [])"
  by (simp add: handler_def options_bad_target_def sample_runtime_def sample_url_parse_def)

subsection \<open>C9: the static responder always answers 200\<close>

text \<open>
  Claim C9. \<^verbatim>\<open>serveStaticFile\<close> answers 200 for every path and every outcome of its reads; even
  when the fallback read of \<^verbatim>\<open>index.html\<close> fails it writes a 200, with an empty body.
\<close>

theorem static_always_200:
  "statusCode (serveStaticFile rt cfg w filePath res) = 200 \<and>
   (readFile w filePath = None \<and>
    readFile_fallback w (path_join rt (dirname cfg) ''index.html'') = None
      \<longrightarrow> body (serveStaticFile rt cfg w filePath res) = [])"
  by (simp add: serveStaticFile_status serveStaticFile_fallback res_end_def)

theorem static_always_200_witness:
  "statusCode (serveStaticFile sample_runtime sample_config bare_world ''/srv/style.css''
     (cors new_response)) = 200 \<and>
   body (serveStaticFile sample_runtime sample_config bare_world ''/srv/style.css''
     (cors new_response)) = []"
proof -
  have "readFile bare_world ''/srv/style.css'' = None \<and>
    readFile_fallback bare_world (path_join sample_runtime (dirname sample_config) ''index.html'')
      = None"
    by (simp add: bare_world_def)
  with static_always_200[of sample_runtime sample_config bare_world "''/srv/style.css''"
      "cors new_response"]
  show ?thesis by blast
qed

subsection \<open>C10: other methods on /submit\<close>

text \<open>
  Claim C10, as amended. A request to \<^verbatim>\<open>/submit\<close> whose method is neither \<^verbatim>\<open>POST\<close> nor \<^verbatim>\<open>OPTIONS\<close>
  (\<^verbatim>\<open>GET /submit\<close>, say) is not rejected: it is handed to the static file responder with the
  raw path joined onto the project root, touches neither the cache nor the network, and is
  answered with 200; when no such file can be read and \<^verbatim>\<open>index.html\<close> can, the body is the
  main page.
\<close>

theorem other_methods_on_submit:
  assumes "url_parse rt (req_url req) = Some parsedUrl" and "pathname parsedUrl = Some ''/submit''"
    and "req_method req \<noteq> ''POST''" and "req_method req \<noteq> ''OPTIONS''"
  shows "handler rt cfg w s req =
           (Some (serveStaticFile rt cfg w (path_join rt (dirname cfg) ''/submit'')
                    (cors new_response)),
            s, []) \<and>
         map_option statusCode (fst (handler rt cfg w s req)) = Some 200 \<and>
         (readFile w (path_join rt (dirname cfg) ''/submit'') = None \<longrightarrow>
            (\<forall>indexContent.
               readFile_fallback w (path_join rt (dirname cfg) ''index.html'') = Some indexContent
                 \<longrightarrow> map_option body (fst (handler rt cfg w s req)) = Some indexContent))"
  using assms
  by (simp add: handler_def Let_def serveStaticFile_status serveStaticFile_fallback res_end_def)

theorem other_methods_on_submit_witness:
  "handler sample_runtime sample_config sample_world initial_cache get_submit =
     (Some (serveStaticFile sample_runtime sample_config sample_world ''/srv/submit''
              (cors new_response)),
      initial_cache, []) \<and>
   map_option statusCode
     (fst (handler sample_runtime sample_config sample_world initial_cache get_submit))
     = Some 200 \<and>
   map_option body
     (fst (handler sample_runtime sample_config sample_world initial_cache get_submit)) =
     Some ''<html>main</html>''"
proof -
  have url: "url_parse sample_runtime (req_url get_submit) = Some \<lparr>pathname = Some ''/submit''\<rparr>"
    by (simp add: sample_runtime_def sample_url_parse_def get_submit_def)
  have req: "pathname \<lparr>pathname = Some ''/submit''\<rparr> = Some ''/submit''"
    "req_method get_submit \<noteq> ''POST''" "req_method get_submit \<noteq> ''OPTIONS''"
    by (simp_all add: get_submit_def)
  have path: "path_join sample_runtime (dirname sample_config) ''/submit'' = ''/srv/submit''"
    by (simp add: sample_runtime_def sample_config_def)
  have files: "readFile sample_world (path_join sample_runtime (dirname sample_config) ''/submit'')
       = None"
    "readFile_fallback sample_world (path_join sample_runtime (dirname sample_config) ''index.html'')
       = Some ''<html>main</html>''"
    by (simp_all add: sample_world_def site_files_def sample_runtime_def sample_config_def)
  from other_methods_on_submit[OF url req, of sample_config sample_world initial_cache]
    files
  have "handler sample_runtime sample_config sample_world initial_cache get_submit =
     (Some (serveStaticFile sample_runtime sample_config sample_world
        (path_join sample_runtime (dirname sample_config) ''/submit'') (cors new_response)),
      initial_cache, []) \<and>
   map_option statusCode
     (fst (handler sample_runtime sample_config sample_world initial_cache get_submit))
     = Some 200 \<and>
   map_option body
     (fst (handler sample_runtime sample_config sample_world initial_cache get_submit)) =
     Some ''<html>main</html>''"
    by blast
  then show ?thesis unfolding path .
qed

text \<open>
  The claim as it was stated covers every method but \<^verbatim>\<open>POST\<close>. \<^verbatim>\<open>OPTIONS /submit\<close> does not reach
  the static file responder: it is answered with 204 and no body, where the responder would
  have sent the main page.
\<close>

theorem other_methods_on_submit_counterexample:
  "req_method options_submit \<noteq> ''POST'' \<and>
   url_parse sample_runtime (req_url options_submit) = Some \<lparr>pathname = Some ''/submit''\<rparr> \<and>
   fst (handler sample_runtime sample_config sample_world initial_cache options_submit) =
     Some \<lparr>statusCode = 204, headers = cors_list, body = []\<rparr> \<and>
   serveStaticFile sample_runtime sample_config sample_world
     (path_join sample_runtime (dirname sample_config) ''/submit'') (cors new_response) =
     \<lparr>statusCode = 200, headers = cors_list @ [(''Content-Type'', ''text/html'')],
      body = ''<html>main</html>''\<rparr>"
  by (simp add: model_defs sample_defs Let_def)

end
